theory Spec2Isabelle
  imports Main "HOL-Library.Word"
begin

section \<open>Data model of the argument-marshaling layer\<close>

text \<open>
  The embedding follows the Go package \<open>abi\<close> (argument.go). Go's \<open>int\<close> is the
  64-bit two's-complement integer of the platforms the client is built for, so every
  \<open>int\<close> of the source is a \<open>64 word\<close>: \<open>+\<close> and \<open>*\<close> wrap as they do in Go.
  A byte is an \<open>8 word\<close>.
\<close>

type_synonym byte = "8 word"
type_synonym goint = "64 word"

text \<open>The kind tag \<open>Type.T\<close>: the byte constants of the type codec.\<close>

datatype TypeKind =
    IntTy | UintTy | BoolTy | StringTy | SliceTy | ArrayTy | TupleTy | AddressTy
  | FixedBytesTy | BytesTy | HashTy | FixedPointTy | FunctionTy

text \<open>
  The fields of the Go struct \<open>Type\<close> that the argument layer reads: the kind tag
  \<open>T\<close>, the declared dimension \<open>Size\<close> and the element type \<open>Elem\<close>, a pointer
  that is nil (\<open>None\<close>) for a type without elements.
\<close>

datatype Type = MkType (T: TypeKind) (Size: goint) (Elem: "Type option")

record Argument =
  Name :: string
  Type :: Type
  Indexed :: bool

type_synonym Arguments = "Argument list"

text \<open>
  Run-time values (\<open>interface{}\<close> seen through \<open>reflect\<close>). \<open>VInt\<close> is a value
  of any integer type, so a byte slice is a \<open>VSlice\<close> of \<open>VInt\<close>. \<open>VPtr x\<close> is a
  non-nil pointer whose pointee holds \<open>x\<close>; \<open>VNilPtr\<close> is a typed nil pointer. A
  struct is the list of its fields in declaration order.
\<close>

datatype gval =
    VBool bool
  | VInt int
  | VString string
  | VSlice "gval list"
  | VArray "gval list"
  | VStruct "(string \<times> gval) list"
  | VPtr gval
  | VNilPtr

datatype Kind = KBool | KInt | KString | KSlice | KArray | KStruct | KPtr

fun KindOf :: "gval \<Rightarrow> Kind" where
  "KindOf (VBool _) = KBool"
| "KindOf (VInt _) = KInt"
| "KindOf (VString _) = KString"
| "KindOf (VSlice _) = KSlice"
| "KindOf (VArray _) = KArray"
| "KindOf (VStruct _) = KStruct"
| "KindOf (VPtr _) = KPtr"
| "KindOf VNilPtr = KPtr"

text \<open>
  A fixed-size address record (\<open>c_type.PKr\<close>, an array of 96 bytes) as its bytes.
\<close>

type_synonym PKr = "byte list"

datatype panic = NilDereference | IndexOutOfRange | ZeroValue | ElemOfNonPointer

datatype error =
    ArgumentCountMismatch nat nat
  | UnpackNonPointer
  | UnpackNoValues
  | NilMap
  | FieldNotFound string
  | InsufficientArguments nat nat
  | CannotUnmarshalTuple
  | CollaboratorError string
  | Panic panic

text \<open>
  The collaborators the argument layer calls and that live in other files of the
  package: the type codec (\<open>pack\<close>, \<open>requiresLengthPrefix\<close>, \<open>toGoType\<close>,
  \<open>getAllAddress\<close>), the coercion \<open>set\<close> and the field resolution
  \<open>mapArgNamesToStructFields\<close>. They are parameters of the model. \<open>set\<close>, here
  \<open>set_value\<close>, is given the present content of the location it writes and returns
  the new content.
\<close>

record collab =
  pack :: "Type \<Rightarrow> gval \<Rightarrow> error + byte list"
  requiresLengthPrefix :: "Type \<Rightarrow> bool"
  toGoType :: "goint \<Rightarrow> Type \<Rightarrow> byte list \<Rightarrow> error + gval"
  getAllAddress :: "Type \<Rightarrow> gval \<Rightarrow> error + PKr list"
  set_value :: "gval \<Rightarrow> gval \<Rightarrow> error + gval"
  mapArgNamesToStructFields :: "string list \<Rightarrow> gval \<Rightarrow> error + (string \<rightharpoonup> string)"

section \<open>Argument lists\<close>

fun LengthNonIndexed :: "Arguments \<Rightarrow> goint" where
  "LengthNonIndexed [] = 0"
| "LengthNonIndexed (arg # arguments) =
     (if \<not> Indexed arg then 1 + LengthNonIndexed arguments else LengthNonIndexed arguments)"

fun NonIndexed :: "Arguments \<Rightarrow> Arguments" where
  "NonIndexed [] = []"
| "NonIndexed (arg # arguments) =
     (if \<not> Indexed arg then arg # NonIndexed arguments else NonIndexed arguments)"

definition isTuple :: "Arguments \<Rightarrow> bool" where
  "isTuple arguments = (length arguments > 1)"

section \<open>Array size\<close>

text \<open>
  The loop of \<open>getArraySize\<close>: \<open>arr\<close> is the pointer to the element type; reading
  \<open>arr.T\<close> through a nil pointer panics.
\<close>

fun getArraySize_loop :: "goint \<Rightarrow> Type option \<Rightarrow> error + goint" where
  "getArraySize_loop sz None = Inl (Panic NilDereference)"
| "getArraySize_loop sz (Some (MkType t s e)) =
     (if t = ArrayTy then getArraySize_loop (sz * s) e else Inr sz)"

definition getArraySize :: "Type \<Rightarrow> error + goint" where
  "getArraySize arr = getArraySize_loop (Size arr) (Elem arr)"

section \<open>Value decoder\<close>

text \<open>
  A panic inside a collaborator ends the caller at once; a collaborator that panics
  returns \<open>Inl (Panic p)\<close>.
\<close>

fun panicked :: "error + 'a \<Rightarrow> panic option" where
  "panicked (Inl (Panic p)) = Some p"
| "panicked r = None"

text \<open>
  The loop of \<open>UnpackValues\<close> over the non-indexed arguments, with its variables
  \<open>index\<close>, \<open>virtualArgs\<close> and \<open>retval\<close>. The error of the decode is inspected
  only after the array adjustment, as in the source.
\<close>

fun UnpackValues_loop ::
  "collab \<Rightarrow> byte list \<Rightarrow> goint \<Rightarrow> goint \<Rightarrow> gval list \<Rightarrow> Arguments \<Rightarrow> error + gval list" where
  "UnpackValues_loop c data index virtualArgs retval [] = Inr retval"
| "UnpackValues_loop c data index virtualArgs retval (arg # rest) =
     (let r = toGoType c ((index + virtualArgs) * 32) (Type arg) data in
      case panicked r of
        Some p \<Rightarrow> Inl (Panic p)
      | None \<Rightarrow>
         (case (if T (Type arg) = ArrayTy
                then (case getArraySize (Type arg) of
                        Inl e \<Rightarrow> Inl e
                      | Inr n \<Rightarrow> Inr (virtualArgs + (n - 1)))
                else Inr virtualArgs) of
            Inl e \<Rightarrow> Inl e
          | Inr virtualArgs' \<Rightarrow>
              (case r of
                 Inl e \<Rightarrow> Inl e
               | Inr marshalledValue \<Rightarrow>
                   UnpackValues_loop c data (index + 1) virtualArgs'
                     (retval @ [marshalledValue]) rest)))"

definition UnpackValues :: "collab \<Rightarrow> Arguments \<Rightarrow> byte list \<Rightarrow> error + gval list" where
  "UnpackValues c arguments data = UnpackValues_loop c data 0 0 [] (NonIndexed arguments)"

section \<open>Value encoder\<close>

text \<open>A number written big-endian in \<open>k\<close> bytes, and a big-endian byte string read.\<close>

fun be_bytes :: "nat \<Rightarrow> nat \<Rightarrow> byte list" where
  "be_bytes 0 n = []"
| "be_bytes (Suc k) n = be_bytes k (n div 256) @ [of_nat (n mod 256)]"

fun be_nat :: "nat \<Rightarrow> byte list \<Rightarrow> nat" where
  "be_nat acc [] = acc"
| "be_nat acc (b # bs) = be_nat (acc * 256 + unat b) bs"

text \<open>
  Modelled from the spec: \<open>packNum\<close> (pack.go) is not among the sources. Section 4.1
  has Pack emit "a 32-byte offset"; the offset is a Go \<open>int\<close>, written as the
  32-byte big-endian two's-complement number.
\<close>

definition packNum :: "goint \<Rightarrow> byte list" where
  "packNum n = be_bytes 32 (nat (sint n mod 2 ^ 256))"

text \<open>The first loop of \<open>Pack\<close>: the running \<open>inputOffset\<close>.\<close>

fun inputOffset_loop :: "goint \<Rightarrow> Arguments \<Rightarrow> goint" where
  "inputOffset_loop inputOffset [] = inputOffset"
| "inputOffset_loop inputOffset (abiArg # abiArgs) =
     (if T (Type abiArg) = ArrayTy
      then inputOffset_loop (inputOffset + 32 * Size (Type abiArg)) abiArgs
      else inputOffset_loop (inputOffset + 32) abiArgs)"

text \<open>
  The second loop of \<open>Pack\<close>, over the values and the arguments at the same
  positions, with its variables \<open>ret\<close> and \<open>variableInput\<close>; at the end the
  variable input is appended.
\<close>

fun Pack_loop ::
  "collab \<Rightarrow> goint \<Rightarrow> byte list \<Rightarrow> byte list \<Rightarrow> (Argument \<times> gval) list \<Rightarrow> error + byte list" where
  "Pack_loop c inputOffset ret variableInput [] = Inr (ret @ variableInput)"
| "Pack_loop c inputOffset ret variableInput ((input, a) # rest) =
     (case pack c (Type input) a of
        Inl e \<Rightarrow> Inl e
      | Inr packed \<Rightarrow>
          if requiresLengthPrefix c (Type input)
          then Pack_loop c inputOffset
                 (ret @ packNum (inputOffset + of_nat (length variableInput)))
                 (variableInput @ packed) rest
          else Pack_loop c inputOffset (ret @ packed) variableInput rest)"

definition Pack :: "collab \<Rightarrow> Arguments \<Rightarrow> gval list \<Rightarrow> error + byte list" where
  "Pack c arguments args =
     (if length args \<noteq> length arguments
      then Inl (ArgumentCountMismatch (length args) (length arguments))
      else Pack_loop c (inputOffset_loop 0 arguments) [] [] (zip arguments args))"

definition PackValues :: "collab \<Rightarrow> Arguments \<Rightarrow> gval list \<Rightarrow> error + byte list" where
  "PackValues c arguments args = Pack c arguments args"

section \<open>Address-list encoder\<close>

text \<open>
  Modelled from the spec: \<open>math.PaddedBigBytes\<close> (common/math) is not among the
  sources. Section 4.2 has the count "encoded as a fixed 2-byte big-endian value":
  the number written big-endian in the given number of bytes.
\<close>

definition PaddedBigBytes :: "nat \<Rightarrow> nat \<Rightarrow> byte list" where
  "PaddedBigBytes bigint n = be_bytes n bigint"

fun PackPrefix_loop ::
  "collab \<Rightarrow> PKr list \<Rightarrow> (Argument \<times> gval) list \<Rightarrow> error + PKr list" where
  "PackPrefix_loop c result [] = Inr result"
| "PackPrefix_loop c result ((input, a) # rest) =
     (case getAllAddress c (Type input) a of
        Inl e \<Rightarrow> Inl e
      | Inr pkrs \<Rightarrow> PackPrefix_loop c (result @ pkrs) rest)"

fun PackPrefix_append :: "byte list \<Rightarrow> PKr list \<Rightarrow> byte list" where
  "PackPrefix_append ret [] = ret"
| "PackPrefix_append ret (pkr # result) = PackPrefix_append (ret @ pkr) result"

definition PackPrefix :: "collab \<Rightarrow> Arguments \<Rightarrow> gval list \<Rightarrow> error + byte list" where
  "PackPrefix c arguments args =
     (if length args \<noteq> length arguments
      then Inl (ArgumentCountMismatch (length args) (length arguments))
      else case PackPrefix_loop c [] (zip arguments args) of
             Inl e \<Rightarrow> Inl e
           | Inr result \<Rightarrow>
               Inr (PackPrefix_append ([] @ PaddedBigBytes (length result) 2) result))"

section \<open>Structural decoder\<close>

text \<open>
  A decode into a destination returns the error, if any, and the destination as the
  call leaves it: a failing call does not restore what it has already written.
\<close>

type_synonym gomap = "(string \<rightharpoonup> gval) option"

fun unpackIntoMap_loop ::
  "(string \<rightharpoonup> gval) \<Rightarrow> gval list \<Rightarrow> nat \<Rightarrow> Arguments \<Rightarrow> error option \<times> (string \<rightharpoonup> gval)" where
  "unpackIntoMap_loop v marshalledValues i [] = (None, v)"
| "unpackIntoMap_loop v marshalledValues i (arg # rest) =
     (if i < length marshalledValues
      then unpackIntoMap_loop (v(Name arg \<mapsto> marshalledValues ! i)) marshalledValues (Suc i) rest
      else (Some (Panic IndexOutOfRange), v))"

text \<open>The destination map is \<open>None\<close> when it is nil.\<close>

definition unpackIntoMap :: "Arguments \<Rightarrow> gomap \<Rightarrow> gval list \<Rightarrow> error option \<times> gomap" where
  "unpackIntoMap arguments v marshalledValues =
     (case v of
        None \<Rightarrow> (Some NilMap, None)
      | Some m \<Rightarrow>
          (case unpackIntoMap_loop m marshalledValues 0 (NonIndexed arguments) of
             (err, m') \<Rightarrow> (err, Some m')))"

definition UnpackIntoMap :: "collab \<Rightarrow> Arguments \<Rightarrow> gomap \<Rightarrow> byte list \<Rightarrow> error option \<times> gomap" where
  "UnpackIntoMap c arguments v data =
     (case UnpackValues c arguments data of
        Inl err \<Rightarrow> (Some err, v)
      | Inr marshalledValues \<Rightarrow> unpackIntoMap arguments v marshalledValues)"

text \<open>
  \<open>unpackTuple\<close> and \<open>unpackAtomic\<close> reach their destination through
  \<open>reflect.ValueOf(v).Elem()\<close>: the pointee of a pointer. \<open>Elem\<close> of a value that
  is not a pointer panics. \<open>Elem\<close> of a nil pointer is the zero Value, which has no
  kind and no type and is no location: the tuple decode panics when it asks for its type
  and the coercion panics when it is given it.

  \<open>reflect\<close>'s \<open>FieldByName\<close> on a struct without embedded fields: the position
  of the field of that name; the empty name is no field's.
\<close>

fun FieldIndex :: "string \<Rightarrow> (string \<times> gval) list \<Rightarrow> nat option" where
  "FieldIndex n [] = None"
| "FieldIndex n ((m, x) # fs) = (if m = n then Some 0 else map_option Suc (FieldIndex n fs))"

definition FieldByName :: "(string \<times> gval) list \<Rightarrow> string \<Rightarrow> nat option" where
  "FieldByName fs n = (if n = [] then None else FieldIndex n fs)"

text \<open>Reading a Go map of strings: an absent key reads as the empty string.\<close>

definition lookup_name :: "(string \<rightharpoonup> string) \<Rightarrow> string \<Rightarrow> string" where
  "lookup_name m k = (case m k of None \<Rightarrow> [] | Some f \<Rightarrow> f)"

fun unpackTuple_struct ::
  "collab \<Rightarrow> (string \<rightharpoonup> string) \<Rightarrow> gval list \<Rightarrow> nat \<Rightarrow> (string \<times> gval) list \<Rightarrow> Arguments
   \<Rightarrow> error option \<times> (string \<times> gval) list" where
  "unpackTuple_struct c abi2struct marshalledValues i flds [] = (None, flds)"
| "unpackTuple_struct c abi2struct marshalledValues i flds (arg # rest) =
     (case FieldByName flds (lookup_name abi2struct (Name arg)) of
        None \<Rightarrow> (Some (FieldNotFound (Name arg)), flds)
      | Some k \<Rightarrow>
          if i < length marshalledValues
          then (case set_value c (snd (flds ! k)) (marshalledValues ! i) of
                  Inl e \<Rightarrow> (Some e, flds)
                | Inr x \<Rightarrow>
                    unpackTuple_struct c abi2struct marshalledValues (Suc i)
                      (flds[k := (fst (flds ! k), x)]) rest)
          else (Some (Panic IndexOutOfRange), flds))"

fun unpackTuple_seq ::
  "collab \<Rightarrow> gval list \<Rightarrow> nat \<Rightarrow> gval list \<Rightarrow> Arguments \<Rightarrow> error option \<times> gval list" where
  "unpackTuple_seq c marshalledValues i elems [] = (None, elems)"
| "unpackTuple_seq c marshalledValues i elems (arg # rest) =
     (if i < length elems \<and> i < length marshalledValues
      then (case set_value c (elems ! i) (marshalledValues ! i) of
              Inl e \<Rightarrow> (Some e, elems)
            | Inr x \<Rightarrow> unpackTuple_seq c marshalledValues (Suc i) (elems[i := x]) rest)
      else (Some (Panic IndexOutOfRange), elems))"

definition unpackTuple :: "collab \<Rightarrow> Arguments \<Rightarrow> gval \<Rightarrow> gval list \<Rightarrow> error option \<times> gval" where
  "unpackTuple c arguments v marshalledValues =
     (case v of
        VPtr val \<Rightarrow>
          (let nonIndexedArgs = NonIndexed arguments in
           case val of
             VStruct flds \<Rightarrow>
               (let argNames = map Name nonIndexedArgs in
                case mapArgNamesToStructFields c argNames val of
                  Inl err \<Rightarrow> (Some err, v)
                | Inr abi2struct \<Rightarrow>
                    (case unpackTuple_struct c abi2struct marshalledValues 0 flds nonIndexedArgs of
                       (err, flds') \<Rightarrow> (err, VPtr (VStruct flds'))))
           | VSlice elems \<Rightarrow>
               if length elems < length marshalledValues
               then (Some (InsufficientArguments (length arguments) (length elems)), v)
               else (case unpackTuple_seq c marshalledValues 0 elems nonIndexedArgs of
                       (err, elems') \<Rightarrow> (err, VPtr (VSlice elems')))
           | VArray elems \<Rightarrow>
               if length elems < length marshalledValues
               then (Some (InsufficientArguments (length arguments) (length elems)), v)
               else (case unpackTuple_seq c marshalledValues 0 elems nonIndexedArgs of
                       (err, elems') \<Rightarrow> (err, VPtr (VArray elems')))
           | _ \<Rightarrow> (Some CannotUnmarshalTuple, v))
      | VNilPtr \<Rightarrow> (Some (Panic ZeroValue), v)
      | _ \<Rightarrow> (Some (Panic ElemOfNonPointer), v))"

definition unpackAtomic :: "collab \<Rightarrow> Arguments \<Rightarrow> gval \<Rightarrow> gval \<Rightarrow> error option \<times> gval" where
  "unpackAtomic c arguments v marshalledValues =
     (case v of
        VPtr dst \<Rightarrow>
          (let src = marshalledValues in
           if KindOf dst = KStruct \<and> KindOf src \<noteq> KStruct
           then (case dst of
                   VStruct ((n, f) # fs) \<Rightarrow>
                     (case set_value c f src of
                        Inl err \<Rightarrow> (Some err, v)
                      | Inr f' \<Rightarrow> (None, VPtr (VStruct ((n, f') # fs))))
                 | _ \<Rightarrow> (Some (Panic IndexOutOfRange), v))
           else (case set_value c dst src of
                   Inl err \<Rightarrow> (Some err, v)
                 | Inr dst' \<Rightarrow> (None, VPtr dst')))
      | VNilPtr \<Rightarrow> (Some (Panic ZeroValue), v)
      | _ \<Rightarrow> (Some (Panic ElemOfNonPointer), v))"

definition Unpack :: "collab \<Rightarrow> Arguments \<Rightarrow> gval \<Rightarrow> byte list \<Rightarrow> error option \<times> gval" where
  "Unpack c arguments v data =
     (if KPtr \<noteq> KindOf v then (Some UnpackNonPointer, v)
      else case UnpackValues c arguments data of
             Inl err \<Rightarrow> (Some err, v)
           | Inr marshalledValues \<Rightarrow>
               if length marshalledValues = 0 then (Some UnpackNoValues, v)
               else if isTuple arguments then unpackTuple c arguments v marshalledValues
               else unpackAtomic c arguments v (marshalledValues ! 0))"

section \<open>A model of the collaborators\<close>

text \<open>
  The type codec (\<open>Type.pack\<close>, \<open>requiresLengthPrefix\<close>, \<open>toGoType\<close>,
  \<open>getAllAddress\<close>), the coercion \<open>set\<close> and the field resolution
  \<open>mapArgNamesToStructFields\<close> are not among the sources. The theorems about the
  argument layer hold for every collaborator; the model below is the collaborator at
  which they are evaluated. It covers unsigned integers, fixed arrays, dynamic arrays
  and addresses.
\<close>

text \<open>The results of a list of calls: all the values, or the first error.\<close>

fun collect :: "(error + 'a) list \<Rightarrow> error + 'a list" where
  "collect [] = Inr []"
| "collect (r # rs) =
     (case r of
        Inl e \<Rightarrow> Inl e
      | Inr x \<Rightarrow> (case collect rs of Inl e \<Rightarrow> Inl e | Inr xs \<Rightarrow> Inr (x # xs)))"

text \<open>The 32-byte slot at byte \<open>i\<close>, read as a big-endian number.\<close>

definition word_at :: "nat \<Rightarrow> byte list \<Rightarrow> nat" where
  "word_at i data = be_nat 0 (take 32 (drop i data))"

text \<open>
  Modelled from the spec: \<open>Type.requiresLengthPrefix\<close> is not among the sources.
  Section 4.1: a type requires a length prefix when it is dynamically sized, "strings,
  byte arrays, dynamic arrays".
\<close>

fun model_requiresLengthPrefix :: "Type \<Rightarrow> bool" where
  "model_requiresLengthPrefix t = (T t = StringTy \<or> T t = BytesTy \<or> T t = SliceTy)"

text \<open>
  Modelled from the spec: \<open>Type.pack\<close> is not among the sources. Sections 3 and 4.1:
  a fixed-size scalar fills one 32-byte slot; a fixed array, nested arrays included, is
  flattened to its complete inline byte form, its elements one after the other; the
  payload of a dynamic array is its length and its elements. A value that the type does
  not accept fails.
\<close>

fun model_pack :: "Type \<Rightarrow> gval \<Rightarrow> error + byte list" where
  "model_pack (MkType k n eo) v =
     (case (k, eo, v) of
        (UintTy, _, VInt x) \<Rightarrow>
          if 0 \<le> x \<and> x < 2 ^ 256 then Inr (be_bytes 32 (nat x))
          else Inl (CollaboratorError ''abi: cannot use value as type'')
      | (ArrayTy, Some e, VArray xs) \<Rightarrow>
          if length xs = unat n
          then (case collect (map (model_pack e) xs) of
                  Inl err \<Rightarrow> Inl err
                | Inr ps \<Rightarrow> Inr (concat ps))
          else Inl (CollaboratorError ''abi: cannot use value as type'')
      | (SliceTy, Some e, VSlice xs) \<Rightarrow>
          (case collect (map (model_pack e) xs) of
             Inl err \<Rightarrow> Inl err
           | Inr ps \<Rightarrow> Inr (be_bytes 32 (length xs) @ concat ps))
      | _ \<Rightarrow> Inl (CollaboratorError ''abi: cannot use value as type''))"

text \<open>
  Modelled from the spec: the inline size of a type is not among the sources. Section
  3: a statically-sized array, nested arrays included, fills its size times 32 bytes
  inline; any other type fills one slot.
\<close>

fun model_slots :: "Type \<Rightarrow> nat" where
  "model_slots (MkType k n eo) =
     (case (k, eo) of
        (ArrayTy, Some e) \<Rightarrow> unat n * model_slots e
      | _ \<Rightarrow> 1)"

text \<open>
  Modelled from the spec: \<open>toGoType\<close> is not among the sources. Section 4.3: the
  decode at a byte offset reads the contiguous slots of a fixed array directly and
  resolves a dynamic type through the offset in its slot, where its length and its
  elements are; a decode that the data cannot serve fails.
\<close>

fun model_decode :: "nat \<Rightarrow> Type \<Rightarrow> byte list \<Rightarrow> error + gval" where
  "model_decode i (MkType k n eo) data =
     (if i + 32 \<le> length data
      then (case (k, eo) of
              (UintTy, _) \<Rightarrow> Inr (VInt (int (word_at i data)))
            | (ArrayTy, Some e) \<Rightarrow>
                (case collect (map (\<lambda>j. model_decode (i + j * (32 * model_slots e)) e data)
                                 [0..<unat n]) of
                   Inl err \<Rightarrow> Inl err
                 | Inr xs \<Rightarrow> Inr (VArray xs))
            | (SliceTy, Some e) \<Rightarrow>
                (let begin = word_at i data + 32 in
                 if begin \<le> length data
                 then (let len = word_at (begin - 32) data in
                       if begin + 32 * len \<le> length data
                       then (case collect (map (\<lambda>j. model_decode (begin + j * 32) e data)
                                             [0..<len]) of
                               Inl err \<Rightarrow> Inl err
                             | Inr xs \<Rightarrow> Inr (VSlice xs))
                       else Inl (CollaboratorError ''abi: length insufficient''))
                 else Inl (CollaboratorError ''abi: offset would go over slice boundary''))
            | _ \<Rightarrow> Inl (CollaboratorError ''abi: unknown type''))
      else Inl (CollaboratorError ''abi: length insufficient''))"

text \<open>
  Modelled from the spec: \<open>toGoType\<close> takes the offset as a Go \<open>int\<close>; slicing the
  data at a negative offset panics.
\<close>

definition model_toGoType :: "goint \<Rightarrow> Type \<Rightarrow> byte list \<Rightarrow> error + gval" where
  "model_toGoType index t output =
     (if 0 \<le> sint index then model_decode (unat index) t output
      else Inl (Panic IndexOutOfRange))"

text \<open>The byte that an integer value holds.\<close>

fun byte_of :: "gval \<Rightarrow> byte" where
  "byte_of (VInt x) = of_int x"
| "byte_of v = 0"

text \<open>
  Modelled from the spec: \<open>Type.getAllAddress\<close> is not among the sources. Section
  4.2: it extracts the list of the addresses embedded in a value, in order; an argument
  may contribute none or many. An address value is the array of its 96 bytes.
\<close>

fun model_getAllAddress :: "Type \<Rightarrow> gval \<Rightarrow> error + PKr list" where
  "model_getAllAddress (MkType k n eo) v =
     (case (k, eo, v) of
        (AddressTy, _, VArray bs) \<Rightarrow>
          if length bs = 96 then Inr [map byte_of bs]
          else Inl (CollaboratorError ''abi: cannot use value as address'')
      | (AddressTy, _, _) \<Rightarrow> Inl (CollaboratorError ''abi: cannot use value as address'')
      | (ArrayTy, Some e, VArray xs) \<Rightarrow>
          (case collect (map (model_getAllAddress e) xs) of
             Inl err \<Rightarrow> Inl err
           | Inr ps \<Rightarrow> Inr (concat ps))
      | (SliceTy, Some e, VSlice xs) \<Rightarrow>
          (case collect (map (model_getAllAddress e) xs) of
             Inl err \<Rightarrow> Inl err
           | Inr ps \<Rightarrow> Inr (concat ps))
      | _ \<Rightarrow> Inr [])"

text \<open>
  Modelled from the spec: the coercion \<open>set\<close> is not among the sources. Sections 6
  and 7: \<open>assign(destinationLocation, decodedValue) -> success | error\<close>, failing
  when the decoded value is type-incompatible with the destination. The model assigns a
  value of the destination's kind.
\<close>

definition model_set :: "gval \<Rightarrow> gval \<Rightarrow> error + gval" where
  "model_set dst src =
     (if KindOf src = KindOf dst then Inr src
      else Inl (CollaboratorError ''abi: cannot unmarshal''))"

text \<open>
  Modelled from the spec: \<open>mapArgNamesToStructFields\<close> is not among the sources.
  Section 6: \<open>resolve(argumentNames, destinationStructShape) -> mapping | error\<close>.
  The model resolves a name to the field of the same name.
\<close>

definition model_mapArgNamesToStructFields ::
  "string list \<Rightarrow> gval \<Rightarrow> error + (string \<rightharpoonup> string)" where
  "model_mapArgNamesToStructFields argNames val =
     Inr (map_of (map (\<lambda>n. (n, n)) argNames))"

text \<open>The model collaborators together.\<close>

definition model_collab :: collab where
  "model_collab =
     \<lparr> pack = model_pack,
       requiresLengthPrefix = model_requiresLengthPrefix,
       toGoType = model_toGoType,
       getAllAddress = model_getAllAddress,
       set_value = model_set,
       mapArgNamesToStructFields = model_mapArgNamesToStructFields \<rparr>"

section \<open>The non-indexed subsequence, as specified\<close>

text \<open>
  Section 3 in its own words: the argument list with the entries whose \<open>indexed\<close>
  flag is true removed, the relative order of the others kept.
\<close>

definition nonIndexedSubsequence :: "Arguments \<Rightarrow> Arguments" where
  "nonIndexedSubsequence arguments = filter (\<lambda>a. \<not> Indexed a) arguments"

section \<open>The layout of the encoding, as specified\<close>

text \<open>
  Section 4.1 in its own words: the head size is 32 bytes for every argument, except
  32 times the declared dimension for an array-typed argument; the tail is the packed
  payloads of the arguments whose type requires a length prefix, in argument order; the
  head slot of such an argument is the 32-byte offset head size plus the length of the
  tail so far, and the head slot of any other argument is its packed bytes.
\<close>

definition headSize :: "Arguments \<Rightarrow> goint" where
  "headSize arguments =
     sum_list (map (\<lambda>a. if T (Type a) = ArrayTy then 32 * Size (Type a) else 32) arguments)"

definition packAll :: "collab \<Rightarrow> Arguments \<Rightarrow> gval list \<Rightarrow> error + byte list list" where
  "packAll c arguments args = collect (map (\<lambda>(a, v). pack c (Type a) v) (zip arguments args))"

definition tailOf :: "collab \<Rightarrow> (Argument \<times> byte list) list \<Rightarrow> byte list" where
  "tailOf c aps = concat (map snd (filter (\<lambda>(a, p). requiresLengthPrefix c (Type a)) aps))"

definition headSlot :: "collab \<Rightarrow> goint \<Rightarrow> (Argument \<times> byte list) list \<Rightarrow> nat \<Rightarrow> byte list" where
  "headSlot c hs aps i =
     (if requiresLengthPrefix c (Type (fst (aps ! i)))
      then packNum (hs + of_nat (length (tailOf c (take i aps))))
      else snd (aps ! i))"

definition headOf :: "collab \<Rightarrow> goint \<Rightarrow> (Argument \<times> byte list) list \<Rightarrow> byte list" where
  "headOf c hs aps = concat (map (headSlot c hs aps) [0..<length aps])"

section \<open>The address list, as specified\<close>

text \<open>
  Section 4.2 in its own words: every argument is asked for the list of its embedded
  addresses, in argument order; the first failing extraction fails the call.
\<close>

definition addressesAll :: "collab \<Rightarrow> Arguments \<Rightarrow> gval list \<Rightarrow> error + PKr list list" where
  "addressesAll c arguments args =
     collect (map (\<lambda>(a, v). getAllAddress c (Type a) v) (zip arguments args))"

section \<open>The assignments into a map, as specified\<close>

text \<open>
  Section 4.4 in its own words: each non-indexed argument's decoded value is assigned
  under the argument's name, in list order, a later duplicate name overwriting an
  earlier one: of the pairs of name and value, the last one of each name counts.
\<close>

definition assigned :: "Arguments \<Rightarrow> gval list \<Rightarrow> (string \<rightharpoonup> gval)" where
  "assigned arguments marshalledValues =
     map_of (rev (zip (map Name (nonIndexedSubsequence arguments)) marshalledValues))"

section \<open>The fields a tuple decode resolves\<close>

text \<open>
  The destination field names that the field resolution gives for the names of the
  non-indexed arguments; none when the resolution fails.
\<close>

definition resolvedFields :: "collab \<Rightarrow> Arguments \<Rightarrow> gval \<Rightarrow> string list" where
  "resolvedFields c arguments val =
     (case mapArgNamesToStructFields c (map Name (NonIndexed arguments)) val of
        Inl err \<Rightarrow> []
      | Inr abi2struct \<Rightarrow> map (\<lambda>a. lookup_name abi2struct (Name a)) (NonIndexed arguments))"

section \<open>The two routes of an atomic decode, as specified\<close>

text \<open>
  Section 4.4 in its own words: the decoded value is routed into the first field of
  the destination struct, or assigned directly into the destination. Either way the
  coercion decides, and a failing coercion leaves the destination as it was.
\<close>

definition intoFirstField ::
  "collab \<Rightarrow> string \<Rightarrow> gval \<Rightarrow> (string \<times> gval) list \<Rightarrow> gval \<Rightarrow> error option \<times> gval" where
  "intoFirstField c n f fs src =
     (case set_value c f src of
        Inl err \<Rightarrow> (Some err, VPtr (VStruct ((n, f) # fs)))
      | Inr f' \<Rightarrow> (None, VPtr (VStruct ((n, f') # fs))))"

definition intoDestination :: "collab \<Rightarrow> gval \<Rightarrow> gval \<Rightarrow> error option \<times> gval" where
  "intoDestination c dst src =
     (case set_value c dst src of
        Inl err \<Rightarrow> (Some err, VPtr dst)
      | Inr dst' \<Rightarrow> (None, VPtr dst'))"

section \<open>The slots of the decoder, as specified\<close>

text \<open>
  Sections 4.3 and 4.5 in their own words: the full flattened size of an array type is
  the product of the declared dimension sizes of every nested array level, down to the
  first element type that is not an array; the virtual arguments before position
  \<open>i\<close> are, summed over the array-typed arguments before it, the full size minus
  one; argument \<open>i\<close> is decoded at byte offset \<open>(i + virtualArgs) * 32\<close>. All of
  it is Go \<open>int\<close> arithmetic. An element chain is complete when it reaches a type
  that is not an array before it reaches a nil element pointer.
\<close>

fun elemDims :: "Type option \<Rightarrow> goint list" where
  "elemDims None = []"
| "elemDims (Some (MkType k n eo)) = (if k = ArrayTy then n # elemDims eo else [])"

definition arrayDims :: "Type \<Rightarrow> goint list" where
  "arrayDims arr = Size arr # elemDims (Elem arr)"

definition fullSize :: "Type \<Rightarrow> goint" where
  "fullSize arr = prod_list (arrayDims arr)"

fun elemChainOk :: "Type option \<Rightarrow> bool" where
  "elemChainOk None = False"
| "elemChainOk (Some (MkType k n eo)) = (if k = ArrayTy then elemChainOk eo else True)"

definition virtualArgsAt :: "Arguments \<Rightarrow> nat \<Rightarrow> goint" where
  "virtualArgsAt nonIndexed i =
     sum_list (map (\<lambda>a. if T (Type a) = ArrayTy then fullSize (Type a) - 1 else 0)
                   (take i nonIndexed))"

definition slotOffset :: "Arguments \<Rightarrow> nat \<Rightarrow> goint" where
  "slotOffset nonIndexed i = (of_nat i + virtualArgsAt nonIndexed i) * 32"

definition arraysOk :: "Arguments \<Rightarrow> bool" where
  "arraysOk nonIndexed = list_all (\<lambda>a. T (Type a) \<noteq> ArrayTy \<or> elemChainOk (Elem (Type a))) nonIndexed"

section \<open>Example inputs\<close>

definition uint256 :: Type where
  "uint256 = MkType UintTy 256 None"

definition uint256_slice :: Type where
  "uint256_slice = MkType SliceTy 0 (Some uint256)"

definition uint256_2x3 :: Type where
  "uint256_2x3 = MkType ArrayTy 2 (Some (MkType ArrayTy 3 (Some uint256)))"

definition address_type :: Type where
  "address_type = MkType AddressTy 0 None"

definition address_slice :: Type where
  "address_slice = MkType SliceTy 0 (Some address_type)"

definition pkr_value :: "int \<Rightarrow> gval" where
  "pkr_value x = VArray (replicate 96 (VInt x))"

definition arg :: "string \<Rightarrow> Type \<Rightarrow> Argument" where
  "arg n t = \<lparr>Name = n, Type = t, Indexed = False\<rparr>"

definition indexed_arg :: "string \<Rightarrow> Type \<Rightarrow> Argument" where
  "indexed_arg n t = \<lparr>Name = n, Type = t, Indexed = True\<rparr>"

definition word_of :: "byte \<Rightarrow> byte list" where
  "word_of b = [0,0,0,0,0,0,0,0,0,0,0,0,0,0,0,0,0,0,0,0,0,0,0,0,0,0,0,0,0,0,0,b]"

section \<open>Evaluation\<close>

lemma be_bytes_numeral:
  "be_bytes (numeral k) n = be_bytes (pred_numeral k) (n div 256) @ [of_nat (n mod 256)]"
  using be_bytes.simps(2) [of "pred_numeral k" n] by (simp only: numeral_eq_Suc [symmetric])

lemma length_be_bytes: "length (be_bytes k n) = k"
  by (induction k arbitrary: n) simp_all

lemmas example_defs =
  uint256_def uint256_slice_def uint256_2x3_def address_type_def address_slice_def pkr_value_def
  arg_def indexed_arg_def word_of_def

lemmas model_defs =
  model_collab_def model_toGoType_def model_set_def model_mapArgNamesToStructFields_def
  word_at_def packNum_def be_bytes_numeral

section \<open>Properties of the decoder's result\<close>

lemma panicked_Some: "panicked r = Some p \<longleftrightarrow> r = Inl (Panic p)"
  by (cases r rule: panicked.cases) auto

lemma panicked_Inr: "panicked (Inr x) = None"
  by simp

lemma UnpackValues_loop_step:
  assumes "T (Type a) = ArrayTy \<Longrightarrow> getArraySize (Type a) = Inr n"
  shows "UnpackValues_loop c data index va retval (a # rest) =
     (case toGoType c ((index + va) * 32) (Type a) data of
        Inl e \<Rightarrow> Inl e
      | Inr v \<Rightarrow>
          UnpackValues_loop c data (index + 1)
            (if T (Type a) = ArrayTy then va + (n - 1) else va) (retval @ [v]) rest)"
proof (cases "toGoType c ((index + va) * 32) (Type a) data")
  case (Inl e)
  show ?thesis
  proof (cases "panicked (toGoType c ((index + va) * 32) (Type a) data)")
    case None
    with Inl assms show ?thesis by (simp add: Let_def)
  next
    case (Some p)
    with Inl have "e = Panic p" by (simp add: panicked_Some)
    with Inl Some show ?thesis by (simp add: Let_def)
  qed
next
  case (Inr v)
  with assms show ?thesis by (simp add: Let_def)
qed

lemma UnpackValues_loop_length:
  "UnpackValues_loop c data index va retval as = Inr mv \<Longrightarrow>
   length mv = length retval + length as"
proof (induction as arbitrary: index va retval)
  case Nil
  then show ?case by simp
next
  case (Cons a as)
  then show ?case
    by (fastforce simp: Let_def split: sum.splits if_splits option.splits)
qed

lemma NonIndexed_filter: "NonIndexed arguments = nonIndexedSubsequence arguments"
  by (induction arguments) (simp_all add: nonIndexedSubsequence_def)

lemma UnpackValues_length:
  "UnpackValues c arguments data = Inr mv \<Longrightarrow> length mv = length (NonIndexed arguments)"
  using UnpackValues_loop_length [of c data 0 0 "[]"] by (simp add: UnpackValues_def)

section \<open>Arity of the encoder\<close>

text \<open>
  C6: when the number of values differs from the number of arguments, \<open>Pack\<close>
  fails with the argument-count error and returns no bytes. The result does not depend
  on the codec: no value is packed before the check, whatever \<open>pack\<close> would do.
\<close>

theorem Pack_argument_count_mismatch:
  "length args \<noteq> length arguments \<Longrightarrow>
   Pack c arguments args = Inl (ArgumentCountMismatch (length args) (length arguments))"
  by (simp add: Pack_def)

theorem Pack_argument_count_mismatch_witness:
  "length [VInt 1, VInt 2] \<noteq> length [\<lparr>Name = ''a'', Type = MkType UintTy 256 None, Indexed = False\<rparr>] \<and>
   Pack model_collab [\<lparr>Name = ''a'', Type = MkType UintTy 256 None, Indexed = False\<rparr>] [VInt 1, VInt 2]
     = Inl (ArgumentCountMismatch 2 1)"
  using Pack_argument_count_mismatch
    [of "[VInt 1, VInt 2]" "[\<lparr>Name = ''a'', Type = MkType UintTy 256 None, Indexed = False\<rparr>]" model_collab]
  by simp

section \<open>The checks of Unpack\<close>

text \<open>
  C7: \<open>Unpack\<close> fails when the destination is not a pointer, and fails when the
  decoder returns no value; in both cases the destination is returned as it was given,
  nothing having been assigned into it.
\<close>

theorem Unpack_rejects:
  "(KindOf v \<noteq> KPtr \<longrightarrow> Unpack c arguments v data = (Some UnpackNonPointer, v)) \<and>
   (KindOf v = KPtr \<longrightarrow> UnpackValues c arguments data = Inr mv \<longrightarrow> length mv = 0 \<longrightarrow>
      Unpack c arguments v data = (Some UnpackNoValues, v))"
  by (auto simp: Unpack_def)

theorem Unpack_rejects_witness:
  "KindOf (VInt 0) \<noteq> KPtr \<and>
   Unpack model_collab [] (VInt 0) [] = (Some UnpackNonPointer, VInt 0) \<and>
   KindOf (VPtr (VInt 0)) = KPtr \<and>
   UnpackValues model_collab [\<lparr>Name = ''a'', Type = MkType UintTy 256 None, Indexed = True\<rparr>] [] = Inr [] \<and>
   length ([] :: gval list) = 0 \<and>
   Unpack model_collab [\<lparr>Name = ''a'', Type = MkType UintTy 256 None, Indexed = True\<rparr>] (VPtr (VInt 0)) []
     = (Some UnpackNoValues, VPtr (VInt 0))"
  using Unpack_rejects [of "VInt 0" model_collab "[]" "[]" "[]"]
    Unpack_rejects [of "VPtr (VInt 0)" model_collab
      "[\<lparr>Name = ''a'', Type = MkType UintTy 256 None, Indexed = True\<rparr>]" "[]" "[]"]
  by (simp add: UnpackValues_def)

section \<open>Layout of the encoding\<close>

lemma inputOffset_loop_sum:
  "inputOffset_loop off arguments = off + headSize arguments"
  by (induction arguments arbitrary: off) (simp_all add: headSize_def add.assoc)

lemma tailOf_append: "tailOf c (xs @ ys) = tailOf c xs @ tailOf c ys"
  by (simp add: tailOf_def)

lemma headOf_snoc:
  "headOf c hs (aps @ [ap]) = headOf c hs aps @ headSlot c hs (aps @ [ap]) (length aps)"
proof -
  have eq: "map (headSlot c hs (aps @ [ap])) [0..<length aps] = map (headSlot c hs aps) [0..<length aps]"
    by (rule map_cong) (simp_all add: headSlot_def nth_append)
  show ?thesis by (simp add: headOf_def eq)
qed

lemma Pack_loop_invariant:
  "ret = headOf c hs done \<Longrightarrow> var = tailOf c done \<Longrightarrow>
   Pack_loop c hs ret var rest =
     (case collect (map (\<lambda>(a, v). pack c (Type a) v) rest) of
        Inl e \<Rightarrow> Inl e
      | Inr ps \<Rightarrow>
          Inr (headOf c hs (done @ zip (map fst rest) ps) @ tailOf c (done @ zip (map fst rest) ps)))"
proof (induction rest arbitrary: ret var "done")
  case Nil
  then show ?case by simp
next
  case (Cons x rest)
  obtain input a where x: "x = (input, a)" by (cases x)
  show ?case
  proof (cases "pack c (Type input) a")
    case (Inl e)
    then show ?thesis by (simp add: x)
  next
    case (Inr packed)
    let ?done = "done @ [(input, packed)]"
    have step: "Pack_loop c hs ret var (x # rest) = Pack_loop c hs (headOf c hs ?done) (tailOf c ?done) rest"
      using Cons.prems Inr
      by (simp add: x headOf_snoc headSlot_def tailOf_append tailOf_def)
    show ?thesis
      unfolding step
      using Cons.IH [of "headOf c hs ?done" ?done "tailOf c ?done"] Inr
      by (simp add: x split: sum.splits)
  qed
qed

text \<open>
  C2: for a value sequence as long as the argument list, \<open>Pack\<close> returns the head
  followed by the tail of section 4.1: the head size is the sum of 32 per argument,
  32 times the declared dimension for an array-typed argument; an argument whose type
  requires a length prefix has the offset head size plus the tail length so far in its
  head slot, written by \<open>packNum\<close> in 32 bytes, and its packed payload in the tail;
  any other argument has its packed bytes in the head. A failure of \<open>pack\<close> is
  returned as it is.
\<close>

theorem Pack_layout:
  assumes "length args = length arguments"
  shows "Pack c arguments args =
     (case packAll c arguments args of
        Inl e \<Rightarrow> Inl e
      | Inr ps \<Rightarrow>
          Inr (headOf c (headSize arguments) (zip arguments ps)
               @ tailOf c (zip arguments ps))) \<and>
     length (packNum off) = 32"
proof -
  have nil: "[] = headOf c (headSize arguments) []" "[] = tailOf c []"
    by (simp_all add: headOf_def tailOf_def)
  have fst: "map fst (zip arguments args) = arguments"
    using assms by simp
  show ?thesis
    using Pack_loop_invariant [OF nil, of "zip arguments args"] assms
    by (simp add: Pack_def inputOffset_loop_sum packAll_def fst packNum_def length_be_bytes
          split: sum.splits)
qed

theorem Pack_layout_witness:
  "length [VSlice [VInt 1], VInt 2, VSlice []]
     = length [arg ''a'' uint256_slice, arg ''b'' uint256, arg ''c'' uint256_slice] \<and>
   Pack model_collab [arg ''a'' uint256_slice, arg ''b'' uint256, arg ''c'' uint256_slice]
       [VSlice [VInt 1], VInt 2, VSlice []]
     = Inr (word_of 96 @ word_of 2 @ word_of 160 @ word_of 1 @ word_of 1 @ word_of 0)"
  using Pack_layout [of "[VSlice [VInt 1], VInt 2, VSlice []]"
      "[arg ''a'' uint256_slice, arg ''b'' uint256, arg ''c'' uint256_slice]" model_collab 0]
  by (simp add: packAll_def headOf_def headSlot_def tailOf_def headSize_def
        example_defs model_defs upt_rec)


section \<open>Dispatch of Unpack\<close>

lemma decode_word_of_7:
  "UnpackValues model_collab [indexed_arg ''a'' uint256, arg ''b'' uint256] (word_of 7) = Inr [VInt 7]"
  by (simp add: UnpackValues_def example_defs model_defs)

text \<open>
  C4: once the destination is a pointer and the decoder has returned at least one value,
  \<open>Unpack\<close> calls \<open>unpackTuple\<close> exactly when the full argument list, indexed
  arguments included, has more than one element, and \<open>unpackAtomic\<close> on the first
  value otherwise. A list of two arguments of which one is indexed is decoded to one
  value and still goes to \<open>unpackTuple\<close>.
\<close>

theorem Unpack_dispatch:
  assumes "KindOf v = KPtr" and "UnpackValues c arguments data = Inr mv" and "mv \<noteq> []"
  shows "Unpack c arguments v data =
           (if length arguments > 1 then unpackTuple c arguments v mv
            else unpackAtomic c arguments v (mv ! 0)) \<and>
         (length arguments = 2 \<longrightarrow> length (NonIndexed arguments) = 1 \<longrightarrow>
            length mv = 1 \<and> Unpack c arguments v data = unpackTuple c arguments v mv)"
  using assms UnpackValues_length [OF assms(2)]
  by (auto simp: Unpack_def isTuple_def)

theorem Unpack_dispatch_witness:
  "KindOf (VPtr (VInt 0)) = KPtr \<and>
   UnpackValues model_collab [indexed_arg ''a'' uint256, arg ''b'' uint256] (word_of 7) = Inr [VInt 7] \<and>
   [VInt 7] \<noteq> [] \<and>
   length [indexed_arg ''a'' uint256, arg ''b'' uint256] = 2 \<and>
   length (NonIndexed [indexed_arg ''a'' uint256, arg ''b'' uint256]) = 1 \<and>
   Unpack model_collab [indexed_arg ''a'' uint256, arg ''b'' uint256] (VPtr (VInt 0)) (word_of 7)
     = (Some CannotUnmarshalTuple, VPtr (VInt 0)) \<and>
   unpackAtomic model_collab [indexed_arg ''a'' uint256, arg ''b'' uint256] (VPtr (VInt 0)) (VInt 7)
     = (None, VPtr (VInt 7))"
  using Unpack_dispatch [of "VPtr (VInt 0)" model_collab
       "[indexed_arg ''a'' uint256, arg ''b'' uint256]" "word_of 7" "[VInt 7]"]
    decode_word_of_7
  by (simp add: unpackTuple_def unpackAtomic_def model_collab_def model_set_def indexed_arg_def arg_def)

section \<open>Slots of the decoder\<close>

lemma getArraySize_loop_prod:
  "elemChainOk eo \<Longrightarrow> getArraySize_loop sz eo = Inr (sz * prod_list (elemDims eo))"
proof (induction sz eo rule: getArraySize_loop.induct)
  case (1 sz)
  then show ?case by simp
next
  case (2 sz t s e)
  then show ?case by (simp add: mult.assoc)
qed

lemma getArraySize_loop_nil:
  "\<not> elemChainOk eo \<Longrightarrow> getArraySize_loop sz eo = Inl (Panic NilDereference)"
  by (induction sz eo rule: getArraySize_loop.induct) (simp_all split: if_splits)

lemma getArraySize_fullSize:
  "elemChainOk (Elem arr) \<Longrightarrow> getArraySize arr = Inr (fullSize arr)"
  by (simp add: getArraySize_def fullSize_def arrayDims_def getArraySize_loop_prod)

lemma virtualArgsAt_Suc:
  "i < length xs \<Longrightarrow>
   virtualArgsAt xs (Suc i) =
     virtualArgsAt xs i + (if T (Type (xs ! i)) = ArrayTy then fullSize (Type (xs ! i)) - 1 else 0)"
  by (simp add: virtualArgsAt_def take_Suc_conv_app_nth)

lemma UnpackValues_loop_offsets:
  "arraysOk rest \<Longrightarrow>
   UnpackValues_loop c data (of_nat (length pre)) (virtualArgsAt (pre @ rest) (length pre)) retval rest =
     (case collect (map (\<lambda>i. toGoType c (slotOffset (pre @ rest) i) (Type ((pre @ rest) ! i)) data)
                        [length pre..<length pre + length rest]) of
        Inl e \<Rightarrow> Inl e
      | Inr vs \<Rightarrow> Inr (retval @ vs))"
proof (induction rest arbitrary: pre retval)
  case Nil
  then show ?case by simp
next
  case (Cons a rest)
  let ?all = "pre @ a # rest"
  let ?k = "length pre"
  have ok: "arraysOk rest" and oka: "T (Type a) = ArrayTy \<Longrightarrow> elemChainOk (Elem (Type a))"
    using Cons.prems by (auto simp: arraysOk_def)
  have va: "virtualArgsAt ((pre @ [a]) @ rest) (length (pre @ [a])) =
            virtualArgsAt ?all ?k + (if T (Type a) = ArrayTy then fullSize (Type a) - 1 else 0)"
    using virtualArgsAt_Suc [of ?k ?all] by simp
  have idx: "(of_nat (length (pre @ [a])) :: goint) = of_nat ?k + 1"
    by simp
  have upt: "[?k..<?k + length (a # rest)] = ?k # [length (pre @ [a])..<length (pre @ [a]) + length rest]"
    by (subst upt_rec) simp
  have IH: "UnpackValues_loop c data (of_nat ?k + 1)
              (virtualArgsAt ?all ?k + (if T (Type a) = ArrayTy then fullSize (Type a) - 1 else 0)) rv rest =
            (case collect (map (\<lambda>i. toGoType c (slotOffset ?all i) (Type (?all ! i)) data)
                        [length (pre @ [a])..<length (pre @ [a]) + length rest]) of
               Inl e \<Rightarrow> Inl e
             | Inr vs \<Rightarrow> Inr (rv @ vs))" for rv
    using Cons.IH [OF ok, of "pre @ [a]" rv] unfolding va idx by simp
  have step: "UnpackValues_loop c data (of_nat ?k) (virtualArgsAt ?all ?k) retval (a # rest) =
     (case toGoType c (slotOffset ?all ?k) (Type a) data of
        Inl e \<Rightarrow> Inl e
      | Inr v \<Rightarrow>
          UnpackValues_loop c data (of_nat ?k + 1)
            (virtualArgsAt ?all ?k + (if T (Type a) = ArrayTy then fullSize (Type a) - 1 else 0))
            (retval @ [v]) rest)"
    using UnpackValues_loop_step [of a "fullSize (Type a)" c data "of_nat ?k" "virtualArgsAt ?all ?k" retval rest]
      getArraySize_fullSize [OF oka]
    by (simp add: slotOffset_def split: sum.splits)
  show ?case
  proof (cases "toGoType c (slotOffset ?all ?k) (Type a) data")
    case (Inl e)
    then show ?thesis
      unfolding step upt by simp
  next
    case (Inr v)
    then show ?thesis
      unfolding step upt
      using IH [of "retval @ [v]"]
      by (simp split: sum.splits)
  qed
qed

text \<open>
  C3: \<open>getArraySize\<close> of an array type with a complete element chain is the product
  of the declared dimension sizes of all its nested array levels (6 for a 2 by 3 array),
  and \<open>UnpackValues\<close> decodes the arguments that are not indexed, and only those:
  the one at position \<open>i\<close> of the list with the indexed arguments removed is decoded
  at byte offset \<open>(i + virtualArgs) * 32\<close>, where \<open>virtualArgs\<close> is the sum, over
  the array-typed non-indexed arguments before \<open>i\<close>, of that full size minus one.
  The first failing decode is the result.
\<close>

theorem UnpackValues_offsets:
  "(elemChainOk (Elem arr) \<longrightarrow> getArraySize arr = Inr (prod_list (arrayDims arr))) \<and>
   (arraysOk (nonIndexedSubsequence arguments) \<longrightarrow>
    UnpackValues c arguments data =
      collect (map (\<lambda>i. toGoType c
                            ((of_nat i + virtualArgsAt (nonIndexedSubsequence arguments) i) * 32)
                            (Type (nonIndexedSubsequence arguments ! i)) data)
                   [0..<length (nonIndexedSubsequence arguments)]))"
proof -
  have "UnpackValues c arguments data =
      collect (map (\<lambda>i. toGoType c ((of_nat i + virtualArgsAt (NonIndexed arguments) i) * 32)
                            (Type (NonIndexed arguments ! i)) data)
                   [0..<length (NonIndexed arguments)])" if "arraysOk (NonIndexed arguments)"
    using UnpackValues_loop_offsets [OF that, of c data "[]" "[]"]
    by (simp add: UnpackValues_def virtualArgsAt_def slotOffset_def split: sum.splits)
  then show ?thesis
    using getArraySize_fullSize [of arr] by (simp add: fullSize_def NonIndexed_filter)
qed

theorem UnpackValues_offsets_witness:
  "elemChainOk (Elem uint256_2x3) \<and>
   getArraySize uint256_2x3 = Inr 6 \<and>
   nonIndexedSubsequence [arg ''a'' uint256_2x3, indexed_arg ''x'' uint256, arg ''b'' uint256]
     = [arg ''a'' uint256_2x3, arg ''b'' uint256] \<and>
   arraysOk (nonIndexedSubsequence
       [arg ''a'' uint256_2x3, indexed_arg ''x'' uint256, arg ''b'' uint256]) \<and>
   (of_nat 1 + virtualArgsAt (nonIndexedSubsequence
       [arg ''a'' uint256_2x3, indexed_arg ''x'' uint256, arg ''b'' uint256]) 1) * 32 = 192 \<and>
   UnpackValues model_collab [arg ''a'' uint256_2x3, indexed_arg ''x'' uint256, arg ''b'' uint256]
       (word_of 1 @ word_of 2 @ word_of 3 @ word_of 4 @ word_of 5 @ word_of 6 @ word_of 7)
     = Inr [VArray [VArray [VInt 1, VInt 2, VInt 3], VArray [VInt 4, VInt 5, VInt 6]], VInt 7]"
  using UnpackValues_offsets [of uint256_2x3
      "[arg ''a'' uint256_2x3, indexed_arg ''x'' uint256, arg ''b'' uint256]" model_collab
      "word_of 1 @ word_of 2 @ word_of 3 @ word_of 4 @ word_of 5 @ word_of 6 @ word_of 7"]
  by (simp add: nonIndexedSubsequence_def arraysOk_def virtualArgsAt_def fullSize_def arrayDims_def
        example_defs model_defs upt_rec)


section \<open>Address-list encoding\<close>

lemma be_nat_snoc: "be_nat acc (bs @ [b]) = be_nat acc bs * 256 + unat b"
  by (induction bs arbitrary: acc) simp_all

lemma be_nat_be_bytes: "be_nat acc (be_bytes k n) = acc * 256 ^ k + n mod 256 ^ k"
proof (induction k arbitrary: n)
  case 0
  then show ?case by simp
next
  case (Suc k)
  have b: "unat (of_nat (n mod 256) :: byte) = n mod 256"
    by (simp add: unat_of_nat)
  have "n mod (256 * 256 ^ k) = 256 * (n div 256 mod 256 ^ k) + n mod 256"
    by (rule mod_mult2_eq)
  then show ?case
    by (simp add: be_nat_snoc Suc.IH b algebra_simps)
qed

lemma PackPrefix_loop_collect:
  "PackPrefix_loop c result zs =
     (case collect (map (\<lambda>(a, v). getAllAddress c (Type a) v) zs) of
        Inl e \<Rightarrow> Inl e
      | Inr pss \<Rightarrow> Inr (result @ concat pss))"
proof (induction zs arbitrary: result)
  case Nil
  then show ?case by simp
next
  case (Cons z zs)
  obtain input a where z: "z = (input, a)" by (cases z)
  show ?case
    by (cases "getAllAddress c (Type input) a") (simp_all add: z Cons.IH split: sum.splits)
qed

lemma PackPrefix_append_concat: "PackPrefix_append ret result = ret @ concat result"
  by (induction result arbitrary: ret) simp_all

lemma collect_replicate: "collect (replicate n (Inr x)) = Inr (replicate n x)"
  by (induction n) simp_all

lemma addresses_of_pkr_value:
  "model_getAllAddress address_type (pkr_value 1) = Inr [replicate 96 1]"
  by (simp add: address_type_def pkr_value_def)

lemma addresses_of_pkr_slice:
  "model_getAllAddress address_slice (VSlice (replicate n (pkr_value 1)))
     = Inr (replicate n (replicate 96 1))"
proof -
  have "collect (map (model_getAllAddress address_type) (replicate n (pkr_value 1)))
          = Inr (replicate n [replicate 96 1])"
    by (simp only: map_replicate addresses_of_pkr_value collect_replicate)
  then show ?thesis
    by (simp add: address_slice_def)
qed

text \<open>
  C5, as stated, fails: \<open>PackPrefix\<close> bounds nothing, and for a value that holds
  65536 addresses the prefix it writes is not that count in two bytes, as no two bytes
  hold 65536.
\<close>

theorem PackPrefix_counterexample:
  "PackPrefix model_collab [arg ''others'' address_slice] [VSlice (replicate 65536 (pkr_value 1))]
     = Inr (PaddedBigBytes 65536 2 @ concat (replicate 65536 (replicate 96 1))) \<and>
   \<not> (length (PaddedBigBytes 65536 2) = 2 \<and> be_nat 0 (PaddedBigBytes 65536 2) = 65536)"
proof -
  have loop: "PackPrefix_loop model_collab []
                (zip [arg ''others'' address_slice] [VSlice (replicate 65536 (pkr_value 1))])
              = Inr (replicate 65536 (replicate 96 1))"
    by (simp add: model_collab_def arg_def addresses_of_pkr_slice)
  have out: "PackPrefix model_collab [arg ''others'' address_slice]
               [VSlice (replicate 65536 (pkr_value 1))]
             = Inr (PaddedBigBytes 65536 2 @ concat (replicate 65536 (replicate 96 1)))"
    unfolding PackPrefix_def loop by (simp add: PackPrefix_append_concat)
  have "be_nat 0 (PaddedBigBytes 65536 2) \<noteq> 65536"
    by (simp add: PaddedBigBytes_def be_nat_be_bytes)
  with out show ?thesis by simp
qed

text \<open>
  C5, amended: \<open>PackPrefix\<close> fails with the argument-count error when the number of
  values differs from the number of arguments, and with the error of the first failing
  address extraction; otherwise it returns the lists of addresses of all arguments,
  concatenated in argument order with the order inside each list kept, behind the total
  number of addresses as \<open>PaddedBigBytes\<close> writes it: for a number below 65536, in
  two bytes that read back, big-endian, as the number. A failing call returns no bytes.
\<close>

theorem PackPrefix_result:
  "PackPrefix c arguments args =
     (if length args \<noteq> length arguments
      then Inl (ArgumentCountMismatch (length args) (length arguments))
      else case addressesAll c arguments args of
             Inl e \<Rightarrow> Inl e
           | Inr pss \<Rightarrow>
               Inr (PaddedBigBytes (length (concat pss)) 2 @ concat (concat pss))) \<and>
   (n < 65536 \<longrightarrow>
      length (PaddedBigBytes n 2) = 2 \<and> be_nat 0 (PaddedBigBytes n 2) = n)"
  by (simp add: PackPrefix_def PackPrefix_loop_collect PackPrefix_append_concat addressesAll_def
        PaddedBigBytes_def length_be_bytes be_nat_be_bytes split: sum.splits)

theorem PackPrefix_result_witness:
  "(3::nat) < 65536 \<and> length (PaddedBigBytes 3 2) = 2 \<and> be_nat 0 (PaddedBigBytes 3 2) = 3 \<and>
   PackPrefix model_collab
       [arg ''to'' address_type, arg ''n'' uint256, arg ''others'' address_slice]
       [pkr_value 1, VInt 5, VSlice [pkr_value 3, pkr_value 4]]
     = Inr ([0, 3] @ replicate 96 1 @ replicate 96 3 @ replicate 96 4) \<and>
   PackPrefix model_collab [arg ''to'' address_type] [VInt 5]
     = Inl (CollaboratorError ''abi: cannot use value as address'') \<and>
   PackPrefix model_collab [arg ''to'' address_type] []
     = Inl (ArgumentCountMismatch 0 1)"
  using PackPrefix_result [of model_collab
       "[arg ''to'' address_type, arg ''n'' uint256, arg ''others'' address_slice]"
       "[pkr_value 1, VInt 5, VSlice [pkr_value 3, pkr_value 4]]" 3]
    PackPrefix_result [of model_collab "[arg ''to'' address_type]" "[VInt 5]" 3]
    PackPrefix_result [of model_collab "[arg ''to'' address_type]" "[]" 3]
  by (simp add: addressesAll_def PaddedBigBytes_def example_defs model_defs)


section \<open>Decoding into a map\<close>

lemma unpackIntoMap_loop_closed:
  "i + length rest \<le> length mv \<Longrightarrow>
   unpackIntoMap_loop m mv i rest = (None, m ++ map_of (rev (zip (map Name rest) (drop i mv))))"
proof (induction rest arbitrary: m i)
  case Nil
  then show ?case by simp
next
  case (Cons a rest)
  have i: "i < length mv" and le: "Suc i + length rest \<le> length mv"
    using Cons.prems by simp_all
  have d: "drop i mv = mv ! i # drop (Suc i) mv"
    using i by (simp add: Cons_nth_drop_Suc)
  have eq: "m ++ map_of (rev (zip (map Name (a # rest)) (drop i mv)))
        = m(Name a \<mapsto> mv ! i) ++ map_of (rev (zip (map Name rest) (drop (Suc i) mv)))"
    by (simp add: d map_add_assoc [symmetric] map_add_upd)
  have step: "unpackIntoMap_loop m mv i (a # rest)
        = unpackIntoMap_loop (m(Name a \<mapsto> mv ! i)) mv (Suc i) rest"
    using i by simp
  show ?case
    by (simp only: step Cons.IH [OF le] eq)
qed

text \<open>
  C9, as stated, fails: with a nil destination map and bytes that do not decode,
  \<open>UnpackIntoMap\<close> returns the decoder's error, not the destination error; the
  decoder runs before the map is looked at.
\<close>

theorem UnpackIntoMap_counterexample:
  "fst (UnpackIntoMap model_collab [arg ''a'' uint256] None [])
     = Some (CollaboratorError ''abi: length insufficient'') \<and>
   fst (UnpackIntoMap model_collab [arg ''a'' uint256] None []) \<noteq> Some NilMap"
  by (simp add: UnpackIntoMap_def UnpackValues_def example_defs model_defs)

text \<open>
  C9, amended: given decoded values, \<open>unpackIntoMap\<close> with a nil destination map
  fails with the destination error. \<open>UnpackIntoMap\<close> with a nil destination map
  always fails and leaves the map nil; the error is the destination error when the
  bytes decode and the decoder's error when they do not. With a usable map, a decode
  failure leaves the map as it was, and a successful decode assigns the value of each
  argument that is not indexed, and of no indexed one, under the argument's name, in
  list order, a later duplicate name overwriting an earlier one; every other key keeps
  its value.
\<close>

theorem UnpackIntoMap_result:
  "unpackIntoMap arguments None marshalledValues = (Some NilMap, None) \<and>
   UnpackIntoMap c arguments None data =
     (Some (case UnpackValues c arguments data of Inl e \<Rightarrow> e | Inr mv \<Rightarrow> NilMap), None) \<and>
   (UnpackValues c arguments data = Inl e \<longrightarrow>
      UnpackIntoMap c arguments (Some m) data = (Some e, Some m)) \<and>
   (UnpackValues c arguments data = Inr mv \<longrightarrow>
      UnpackIntoMap c arguments (Some m) data = (None, Some (m ++ assigned arguments mv)))"
proof -
  have "unpackIntoMap_loop m mv 0 (NonIndexed arguments) = (None, m ++ assigned arguments mv)"
    if "UnpackValues c arguments data = Inr mv"
    using unpackIntoMap_loop_closed [of 0 "NonIndexed arguments" mv m] UnpackValues_length [OF that]
    by (simp add: assigned_def NonIndexed_filter)
  then show ?thesis
    by (auto simp: UnpackIntoMap_def unpackIntoMap_def split: sum.splits)
qed

theorem UnpackIntoMap_result_witness:
  "UnpackValues model_collab [arg ''a'' uint256] [] = Inl (CollaboratorError ''abi: length insufficient'') \<and>
   UnpackIntoMap model_collab [arg ''a'' uint256] (Some Map.empty) []
     = (Some (CollaboratorError ''abi: length insufficient''), Some Map.empty) \<and>
   UnpackValues model_collab
       [arg ''a'' uint256, indexed_arg ''x'' uint256, arg ''b'' uint256, arg ''a'' uint256]
       (word_of 1 @ word_of 2 @ word_of 3) = Inr [VInt 1, VInt 2, VInt 3] \<and>
   UnpackIntoMap model_collab
       [arg ''a'' uint256, indexed_arg ''x'' uint256, arg ''b'' uint256, arg ''a'' uint256] None
       (word_of 1 @ word_of 2 @ word_of 3) = (Some NilMap, None) \<and>
   fst (UnpackIntoMap model_collab
       [arg ''a'' uint256, indexed_arg ''x'' uint256, arg ''b'' uint256, arg ''a'' uint256]
       (Some [''c'' \<mapsto> VInt 9]) (word_of 1 @ word_of 2 @ word_of 3)) = None \<and>
   map (the (snd (UnpackIntoMap model_collab
       [arg ''a'' uint256, indexed_arg ''x'' uint256, arg ''b'' uint256, arg ''a'' uint256]
       (Some [''c'' \<mapsto> VInt 9]) (word_of 1 @ word_of 2 @ word_of 3))))
       [''a'', ''b'', ''c'', ''d'', ''x'']
     = [Some (VInt 3), Some (VInt 2), Some (VInt 9), None, None]"
proof -
  have bad: "UnpackValues model_collab [arg ''a'' uint256] [] = Inl (CollaboratorError ''abi: length insufficient'')"
    by (simp add: UnpackValues_def example_defs model_defs)
  have good: "UnpackValues model_collab
       [arg ''a'' uint256, indexed_arg ''x'' uint256, arg ''b'' uint256, arg ''a'' uint256]
       (word_of 1 @ word_of 2 @ word_of 3) = Inr [VInt 1, VInt 2, VInt 3]"
    by (simp add: UnpackValues_def example_defs model_defs)
  show ?thesis
    using UnpackIntoMap_result [where c = model_collab and arguments = "[arg ''a'' uint256]"
        and data = "[]" and e = "CollaboratorError ''abi: length insufficient''"
        and m = Map.empty and mv = "[]"]
      UnpackIntoMap_result [where c = model_collab
        and arguments = "[arg ''a'' uint256, indexed_arg ''x'' uint256, arg ''b'' uint256, arg ''a'' uint256]"
        and data = "word_of 1 @ word_of 2 @ word_of 3" and e = NilMap
        and m = "[''c'' \<mapsto> VInt 9]" and mv = "[VInt 1, VInt 2, VInt 3]"]
      bad good
    by (simp add: assigned_def nonIndexedSubsequence_def arg_def indexed_arg_def)
qed


section \<open>Decoding a tuple into a struct\<close>

lemma FieldIndex_Some:
  "FieldIndex n fs = Some k \<Longrightarrow> k < length fs \<and> fst (fs ! k) = n"
proof (induction fs arbitrary: k)
  case Nil
  then show ?case by simp
next
  case (Cons f fs)
  obtain m x where f: "f = (m, x)" by (cases f)
  show ?case
  proof (cases "m = n")
    case True
    with Cons.prems f show ?thesis by simp
  next
    case False
    with Cons.prems f obtain k' where "FieldIndex n fs = Some k'" "k = Suc k'"
      by auto
    with Cons.IH show ?thesis by simp
  qed
qed

lemma FieldByName_Some:
  "FieldByName fs n = Some k \<Longrightarrow> k < length fs \<and> fst (fs ! k) = n"
  by (simp add: FieldByName_def FieldIndex_Some split: if_splits)

lemma unpackTuple_struct_frame:
  "unpackTuple_struct c abi2struct mv i flds rest = (err, flds') \<Longrightarrow>
   map fst flds' = map fst flds \<and>
   (\<forall>j<length flds.
      fst (flds ! j) \<notin> set (map (\<lambda>a. lookup_name abi2struct (Name a)) rest) \<longrightarrow>
      flds' ! j = flds ! j)"
proof (induction rest arbitrary: flds i)
  case Nil
  then show ?case by simp
next
  case (Cons a rest)
  show ?case
  proof (cases "FieldByName flds (lookup_name abi2struct (Name a))")
    case None
    with Cons.prems show ?thesis by simp
  next
    case (Some k)
    note k = FieldByName_Some [OF Some]
    show ?thesis
    proof (cases "i < length mv")
      case False
      with Cons.prems Some show ?thesis by simp
    next
      case True
      show ?thesis
      proof (cases "set_value c (snd (flds ! k)) (mv ! i)")
        case (Inl e)
        with Cons.prems Some True show ?thesis by simp
      next
        case (Inr x)
        let ?flds = "flds[k := (fst (flds ! k), x)]"
        have run: "unpackTuple_struct c abi2struct mv (Suc i) ?flds rest = (err, flds')"
          using Cons.prems Some True Inr by simp
        have names: "map fst ?flds = map fst flds"
          using k by (simp add: map_update list_update_same_conv)
        have IH: "map fst flds' = map fst ?flds \<and>
                  (\<forall>j<length ?flds.
                     fst (?flds ! j) \<notin> set (map (\<lambda>a. lookup_name abi2struct (Name a)) rest) \<longrightarrow>
                     flds' ! j = ?flds ! j)"
          using Cons.IH [OF run] .
        have "flds' ! j = flds ! j"
          if j: "j < length flds"
            and out: "fst (flds ! j) \<notin> set (map (\<lambda>a. lookup_name abi2struct (Name a)) (a # rest))"
          for j
        proof -
          have "j \<noteq> k" using out k by auto
          then have same: "?flds ! j = flds ! j" by simp
          then show ?thesis using IH j out by simp
        qed
        then show ?thesis using IH names by simp
      qed
    qed
  qed
qed

text \<open>
  C10: \<open>unpackTuple\<close> on a pointer to a struct leaves a pointer to a struct of the
  same fields, and every field whose name is not resolved from the name of a non-indexed
  argument keeps its prior value: only resolved fields are written. This holds when the
  call succeeds, and for what a failing call has written before it fails.
\<close>

theorem unpackTuple_struct_fields_kept:
  assumes "unpackTuple c arguments (VPtr (VStruct flds)) mv = (err, v')"
  shows "\<exists>flds'. v' = VPtr (VStruct flds') \<and> map fst flds' = map fst flds \<and>
           (\<forall>j<length flds.
              fst (flds ! j) \<notin> set (resolvedFields c arguments (VStruct flds)) \<longrightarrow>
              flds' ! j = flds ! j)"
proof (cases "mapArgNamesToStructFields c (map Name (NonIndexed arguments)) (VStruct flds)")
  case (Inl e)
  with assms show ?thesis by (auto simp: unpackTuple_def)
next
  case (Inr abi2struct)
  obtain e fs where run:
    "unpackTuple_struct c abi2struct mv 0 flds (NonIndexed arguments) = (e, fs)"
    by (cases "unpackTuple_struct c abi2struct mv 0 flds (NonIndexed arguments)")
  have v': "v' = VPtr (VStruct fs)"
    using assms Inr run by (simp add: unpackTuple_def)
  show ?thesis
    using unpackTuple_struct_frame [OF run] v' Inr
    by (simp add: resolvedFields_def)
qed

theorem unpackTuple_struct_fields_kept_witness:
  "unpackTuple model_collab [arg ''A'' uint256, indexed_arg ''B'' uint256, arg ''C'' uint256]
       (VPtr (VStruct [(''A'', VInt 0), (''B'', VInt 7), (''C'', VInt 0)])) [VInt 1, VInt 3]
     = (None, VPtr (VStruct [(''A'', VInt 1), (''B'', VInt 7), (''C'', VInt 3)])) \<and>
   resolvedFields model_collab [arg ''A'' uint256, indexed_arg ''B'' uint256, arg ''C'' uint256]
       (VStruct [(''A'', VInt 0), (''B'', VInt 7), (''C'', VInt 0)]) = [''A'', ''C''] \<and>
   (\<exists>flds'. VPtr (VStruct [(''A'', VInt 1), (''B'', VInt 7), (''C'', VInt 3)]) = VPtr (VStruct flds') \<and>
      flds' ! 1 = (''B'', VInt 7))"
proof -
  have run: "unpackTuple model_collab [arg ''A'' uint256, indexed_arg ''B'' uint256, arg ''C'' uint256]
       (VPtr (VStruct [(''A'', VInt 0), (''B'', VInt 7), (''C'', VInt 0)])) [VInt 1, VInt 3]
     = (None, VPtr (VStruct [(''A'', VInt 1), (''B'', VInt 7), (''C'', VInt 3)]))"
    by (simp add: unpackTuple_def FieldByName_def lookup_name_def example_defs model_defs)
  show ?thesis
    using unpackTuple_struct_fields_kept [OF run] run
    by (simp add: resolvedFields_def lookup_name_def example_defs model_defs)
qed


section \<open>Decoding a single value\<close>

text \<open>
  C8, as stated, fails: a destination struct of two fields is not a single-field
  aggregate, yet \<open>unpackAtomic\<close> routes a decoded integer into its first field;
  assigning the integer directly into the struct would have failed.
\<close>

theorem unpackAtomic_counterexample:
  "unpackAtomic model_collab [arg ''x'' uint256]
       (VPtr (VStruct [(''A'', VInt 0), (''B'', VInt 0)])) (VInt 7)
     = (None, VPtr (VStruct [(''A'', VInt 7), (''B'', VInt 0)])) \<and>
   intoDestination model_collab (VStruct [(''A'', VInt 0), (''B'', VInt 0)]) (VInt 7)
     = (Some (CollaboratorError ''abi: cannot unmarshal''),
        VPtr (VStruct [(''A'', VInt 0), (''B'', VInt 0)])) \<and>
   unpackAtomic model_collab [arg ''x'' uint256]
       (VPtr (VStruct [(''A'', VInt 0), (''B'', VInt 0)])) (VInt 7)
     \<noteq> intoDestination model_collab (VStruct [(''A'', VInt 0), (''B'', VInt 0)]) (VInt 7)"
  by (simp add: unpackAtomic_def intoDestination_def model_defs)

text \<open>
  C8, amended: given a destination that is a struct with a first field, of one field
  or of several, and a decoded value that is not a struct, \<open>unpackAtomic\<close> assigns
  the value into the destination's first field; given a destination that is not a
  struct, or a decoded value that is a struct, it assigns the decoded value directly
  into the destination.
\<close>

theorem unpackAtomic_routes:
  "(KindOf src \<noteq> KStruct \<longrightarrow>
      unpackAtomic c arguments (VPtr (VStruct ((n, f) # fs))) src = intoFirstField c n f fs src) \<and>
   (KindOf dst \<noteq> KStruct \<or> KindOf src = KStruct \<longrightarrow>
      unpackAtomic c arguments (VPtr dst) src = intoDestination c dst src)"
  by (auto simp: unpackAtomic_def intoFirstField_def intoDestination_def split: sum.splits)

theorem unpackAtomic_routes_witness:
  "KindOf (VInt 7) \<noteq> KStruct \<and>
   unpackAtomic model_collab [arg ''x'' uint256] (VPtr (VStruct [(''A'', VInt 0)])) (VInt 7)
     = (None, VPtr (VStruct [(''A'', VInt 7)])) \<and>
   unpackAtomic model_collab [arg ''x'' uint256]
       (VPtr (VStruct [(''A'', VInt 0), (''B'', VInt 0)])) (VInt 7)
     = (None, VPtr (VStruct [(''A'', VInt 7), (''B'', VInt 0)])) \<and>
   KindOf (VInt 0) \<noteq> KStruct \<and>
   unpackAtomic model_collab [arg ''x'' uint256] (VPtr (VInt 0)) (VInt 7) = (None, VPtr (VInt 7)) \<and>
   KindOf (VStruct [(''A'', VInt 7)]) = KStruct \<and>
   unpackAtomic model_collab [arg ''x'' uint256] (VPtr (VStruct [(''B'', VInt 0)])) (VStruct [(''A'', VInt 7)])
     = (None, VPtr (VStruct [(''A'', VInt 7)]))"
  using unpackAtomic_routes [of "VInt 7" model_collab "[arg ''x'' uint256]" "''A''" "VInt 0" "[]" "VInt 0"]
    unpackAtomic_routes [of "VInt 7" model_collab "[arg ''x'' uint256]" "''A''" "VInt 0"
      "[(''B'', VInt 0)]" "VInt 0"]
    unpackAtomic_routes [of "VStruct [(''A'', VInt 7)]" model_collab "[arg ''x'' uint256]" "''A''" "VInt 0" "[]"
      "VStruct [(''B'', VInt 0)]"]
  by (simp add: intoFirstField_def intoDestination_def model_defs)


section \<open>Encoding and decoding again\<close>

text \<open>
  C1 does not hold of the code. For the arguments \<open>uint256[3][2]\<close> and
  \<open>uint256[]\<close>, \<open>Pack\<close> counts 32 times the outer dimension for the array, a
  head of 96 bytes, while the array fills six slots and the head is 224 bytes long. The
  offset 96 that it writes for the dynamic array points into the array's slots, and
  \<open>UnpackValues\<close>, which skips all six slots as \<open>getArraySize\<close> tells it, reads the
  dynamic array \<open>[7]\<close> back as \<open>[5]\<close>. With the offset 224 in the same place the
  decoder returns the values that were packed.
\<close>

theorem roundtrip_nested_array_fails:
  "Pack model_collab [arg ''a'' uint256_2x3, arg ''b'' uint256_slice]
       [VArray [VArray [VInt 1, VInt 2, VInt 3], VArray [VInt 1, VInt 5, VInt 6]], VSlice [VInt 7]]
     = Inr (word_of 1 @ word_of 2 @ word_of 3 @ word_of 1 @ word_of 5 @ word_of 6
            @ word_of 96 @ word_of 1 @ word_of 7) \<and>
   UnpackValues model_collab [arg ''a'' uint256_2x3, arg ''b'' uint256_slice]
       (word_of 1 @ word_of 2 @ word_of 3 @ word_of 1 @ word_of 5 @ word_of 6
        @ word_of 96 @ word_of 1 @ word_of 7)
     = Inr [VArray [VArray [VInt 1, VInt 2, VInt 3], VArray [VInt 1, VInt 5, VInt 6]], VSlice [VInt 5]] \<and>
   inputOffset_loop 0 [arg ''a'' uint256_2x3, arg ''b'' uint256_slice] = 96 \<and>
   UnpackValues model_collab [arg ''a'' uint256_2x3, arg ''b'' uint256_slice]
       (word_of 1 @ word_of 2 @ word_of 3 @ word_of 1 @ word_of 5 @ word_of 6
        @ word_of 224 @ word_of 1 @ word_of 7)
     = Inr [VArray [VArray [VInt 1, VInt 2, VInt 3], VArray [VInt 1, VInt 5, VInt 6]], VSlice [VInt 7]]"
proof -
  have p: "Pack model_collab [arg ''a'' uint256_2x3, arg ''b'' uint256_slice]
       [VArray [VArray [VInt 1, VInt 2, VInt 3], VArray [VInt 1, VInt 5, VInt 6]], VSlice [VInt 7]]
     = Inr (word_of 1 @ word_of 2 @ word_of 3 @ word_of 1 @ word_of 5 @ word_of 6
            @ word_of 96 @ word_of 1 @ word_of 7)"
    by (simp add: Pack_def example_defs model_defs)
  have u: "UnpackValues model_collab [arg ''a'' uint256_2x3, arg ''b'' uint256_slice]
       (word_of 1 @ word_of 2 @ word_of 3 @ word_of 1 @ word_of 5 @ word_of 6
        @ word_of 96 @ word_of 1 @ word_of 7)
     = Inr [VArray [VArray [VInt 1, VInt 2, VInt 3], VArray [VInt 1, VInt 5, VInt 6]], VSlice [VInt 5]]"
    by (simp add: UnpackValues_def getArraySize_def example_defs model_defs upt_rec)
  have i: "inputOffset_loop 0 [arg ''a'' uint256_2x3, arg ''b'' uint256_slice] = 96"
    by (simp add: example_defs)
  have f: "UnpackValues model_collab [arg ''a'' uint256_2x3, arg ''b'' uint256_slice]
       (word_of 1 @ word_of 2 @ word_of 3 @ word_of 1 @ word_of 5 @ word_of 6
        @ word_of 224 @ word_of 1 @ word_of 7)
     = Inr [VArray [VArray [VInt 1, VInt 2, VInt 3], VArray [VInt 1, VInt 5, VInt 6]], VSlice [VInt 7]]"
    by (simp add: UnpackValues_def getArraySize_def example_defs model_defs upt_rec)
  show ?thesis using p u i f by simp
qed


end
